theory Spec2Isabelle
  imports Main
begin

section \<open>The default submission handler of the assignment add-on\<close>

text \<open>
  A shallow embedding of the class \<open>AddonModAssignBaseSubmissionHandler\<close>
  (\<^verbatim>\<open>src/addon/mod/assign/classes/base-submission-handler.ts\<close>).
  Every method of the class becomes a function from its arguments and the state before
  the call to the completion of the call and the state after it.
\<close>

subsection \<open>Values\<close>

text \<open>
  Values of the TypeScript type \<open>any\<close>. A JavaScript object is a reference into the heap
  of the state, so that two arguments may alias. The only number the class produces is the
  literal \<open>0\<close>; numbers are integers here (user ids, sizes in bytes).
\<close>

type_synonym number = int

type_synonym ref = nat

datatype 'a promise = Pending | Fulfilled 'a | Rejected 'a

datatype any =
    Undefined
  | Null
  | Boolean bool
  | Number number
  | String string
  | Object ref
  | Array "any list"
  | Promise "any promise"

text \<open>
  How a call completes: with a returned value, or abruptly with a thrown one. The class has
  no \<open>throw\<close> statement: a thrown value can only come out of the one collaborator it calls,
  the translation service.
\<close>

datatype 'a completion = Normal 'a | Throw any

subsection \<open>Collaborators and arguments\<close>

text \<open>
  The translation service (\<open>TranslateService\<close> of ngx-translate, an external library).
  The class uses its method \<open>instant\<close> only, a lookup from a key to a string: the
  translation, or the key itself when none is registered. This record is the service that
  keeps that contract; a lookup that throws is modelled further down.
\<close>

record TranslateService =
  instant :: "string \<Rightarrow> string"

text \<open>
  Modelled from the spec: the declaration of \<open>AddonModAssignPlugin\<close>
  (\<^verbatim>\<open>../providers/assign\<close>) is not among the sources. The plugin descriptor carries the
  type name and the display name of a configured submission plugin; the class reads
  \<open>plugin.type\<close> and \<open>plugin.name\<close>. The name may be missing (\<open>None\<close> is JavaScript's
  \<open>undefined\<close>). The two fields are prefixed, since the handler has fields of the same names.
\<close>

record AddonModAssignPlugin =
  plugin_type :: string
  plugin_name :: "string option"

text \<open>
  The assignment, the submission and the injector are opaque to the class: they are type
  parameters \<open>'a\<close>, \<open>'s\<close> and \<open>'j\<close> below. \<open>inputData\<close>, \<open>offlineData\<close> and \<open>pluginData\<close> have
  the type \<open>any\<close>. An optional parameter (\<open>siteId?: string\<close>) is an \<open>option\<close>.
\<close>

subsection \<open>The handler and the state\<close>

text \<open>The fields of the class: \<open>name\<close>, \<open>type\<close> and the constructor parameter \<open>translate\<close>.\<close>

record AddonModAssignBaseSubmissionHandler =
  name :: string
  type :: string
  translate :: TranslateService

definition constructor :: "TranslateService \<Rightarrow> AddonModAssignBaseSubmissionHandler" where
  "constructor tr =
     \<lparr>name = ''AddonModAssignBaseSubmissionHandler'', type = ''base'', translate = tr\<rparr>"

text \<open>A call of a collaborator, as recorded in the state.\<close>

datatype collaborator_call = TranslateInstant string

text \<open>
  The state a method runs in: the handler object itself (\<open>this\<close>), the heap of the
  caller's objects (the plugin-data accumulator among them, each object a list of
  properties), the local storage of offline data, and the log of the calls made to
  collaborators, oldest first.
\<close>

record state =
  this :: AddonModAssignBaseSubmissionHandler
  heap :: "ref \<rightharpoonup> (string \<times> any) list"
  storage :: "string \<rightharpoonup> any"
  calls :: "collaborator_call list"

text \<open>\<open>this.translate.instant(key)\<close>: the lookup, logged.\<close>

definition translate_instant :: "string \<Rightarrow> state \<Rightarrow> string \<times> state" where
  "translate_instant key s =
     (instant (translate (this s)) key, s\<lparr>calls := calls s @ [TranslateInstant key]\<rparr>)"

text \<open>JavaScript's truthiness of \<open>plugin.name\<close>: \<open>undefined\<close> and the empty string are falsy.\<close>

definition truthy :: "string option \<Rightarrow> bool" where
  "truthy v = (case v of None \<Rightarrow> False | Some n \<Rightarrow> n \<noteq> [])"

subsection \<open>The methods\<close>

definition canEditOffline ::
  "'a \<Rightarrow> 's \<Rightarrow> AddonModAssignPlugin \<Rightarrow> state \<Rightarrow> any completion \<times> state" where
  "canEditOffline assign submission plugin s = (Normal (Boolean False), s)"

definition isEmpty :: "'a \<Rightarrow> AddonModAssignPlugin \<Rightarrow> state \<Rightarrow> any completion \<times> state" where
  "isEmpty assign plugin s = (Normal (Boolean True), s)"

text \<open>A method with an empty body returns \<open>undefined\<close>.\<close>

definition clearTmpData ::
  "'a \<Rightarrow> 's \<Rightarrow> AddonModAssignPlugin \<Rightarrow> any \<Rightarrow> state \<Rightarrow> any completion \<times> state" where
  "clearTmpData assign submission plugin inputData s = (Normal Undefined, s)"

definition copySubmissionData ::
  "'a \<Rightarrow> AddonModAssignPlugin \<Rightarrow> any \<Rightarrow> number option \<Rightarrow> string option \<Rightarrow> state
     \<Rightarrow> any completion \<times> state" where
  "copySubmissionData assign plugin pluginData userId siteId s = (Normal Undefined, s)"

definition deleteOfflineData ::
  "'a \<Rightarrow> 's \<Rightarrow> AddonModAssignPlugin \<Rightarrow> any \<Rightarrow> string option \<Rightarrow> state
     \<Rightarrow> any completion \<times> state" where
  "deleteOfflineData assign submission plugin offlineData siteId s = (Normal Undefined, s)"

definition getComponent ::
  "'j \<Rightarrow> AddonModAssignPlugin \<Rightarrow> bool option \<Rightarrow> state \<Rightarrow> any completion \<times> state" where
  "getComponent injector plugin edit s = (Normal Undefined, s)"

definition getPluginFiles ::
  "'a \<Rightarrow> 's \<Rightarrow> AddonModAssignPlugin \<Rightarrow> string option \<Rightarrow> state \<Rightarrow> any completion \<times> state" where
  "getPluginFiles assign submission plugin siteId s = (Normal (Array []), s)"

text \<open>
  \<open>getPluginName\<close> compares the translation with its key; when they are equal it falls back
  to \<open>plugin.name\<close> if that is truthy, and otherwise runs off the end of its body, which
  returns \<open>undefined\<close>.
\<close>

definition getPluginName :: "AddonModAssignPlugin \<Rightarrow> state \<Rightarrow> any completion \<times> state" where
  "getPluginName plugin s =
     (let translationId = ''addon.mod_assign_submission_'' @ plugin_type plugin @ ''.pluginname'';
          (translation, s') = translate_instant translationId s
      in if translationId \<noteq> translation then (Normal (String translation), s')
         else if truthy (plugin_name plugin)
           then (Normal (case plugin_name plugin of None \<Rightarrow> Undefined | Some n \<Rightarrow> String n), s')
         else (Normal Undefined, s'))"

definition getSizeForCopy :: "'a \<Rightarrow> AddonModAssignPlugin \<Rightarrow> state \<Rightarrow> any completion \<times> state" where
  "getSizeForCopy assign plugin s = (Normal (Number 0), s)"

definition getSizeForEdit ::
  "'a \<Rightarrow> 's \<Rightarrow> AddonModAssignPlugin \<Rightarrow> any \<Rightarrow> state \<Rightarrow> any completion \<times> state" where
  "getSizeForEdit assign submission plugin inputData s = (Normal (Number 0), s)"

definition hasDataChanged ::
  "'a \<Rightarrow> 's \<Rightarrow> AddonModAssignPlugin \<Rightarrow> any \<Rightarrow> state \<Rightarrow> any completion \<times> state" where
  "hasDataChanged assign submission plugin inputData s = (Normal (Boolean False), s)"

definition isEnabled :: "state \<Rightarrow> any completion \<times> state" where
  "isEnabled s = (Normal (Boolean True), s)"

definition isEnabledForEdit :: "state \<Rightarrow> any completion \<times> state" where
  "isEnabledForEdit s = (Normal (Boolean False), s)"

text \<open>\<open>Promise.resolve()\<close> is a promise already fulfilled with \<open>undefined\<close>.\<close>

definition prefetch ::
  "'a \<Rightarrow> 's \<Rightarrow> AddonModAssignPlugin \<Rightarrow> string option \<Rightarrow> state \<Rightarrow> any completion \<times> state" where
  "prefetch assign submission plugin siteId s = (Normal (Promise (Fulfilled Undefined)), s)"

definition prepareSubmissionData ::
  "'a \<Rightarrow> 's \<Rightarrow> AddonModAssignPlugin \<Rightarrow> any \<Rightarrow> any \<Rightarrow> bool option \<Rightarrow> number option
     \<Rightarrow> string option \<Rightarrow> state \<Rightarrow> any completion \<times> state" where
  "prepareSubmissionData assign submission plugin inputData pluginData offline userId siteId s =
     (Normal Undefined, s)"

definition prepareSyncData ::
  "'a \<Rightarrow> 's \<Rightarrow> AddonModAssignPlugin \<Rightarrow> any \<Rightarrow> any \<Rightarrow> string option \<Rightarrow> state
     \<Rightarrow> any completion \<times> state" where
  "prepareSyncData assign submission plugin offlineData pluginData siteId s =
     (Normal Undefined, s)"

subsection \<open>Calling a method by name\<close>

text \<open>
  One constructor for each method of the class, with the arguments of a call. \<open>invoke\<close> is
  the method call \<open>handler.m(args)\<close>, and \<open>run\<close> a sequence of calls, each in the state the
  one before it left.
\<close>

datatype ('a, 's, 'j) hook =
    CanEditOffline 'a 's AddonModAssignPlugin
  | IsEmpty 'a AddonModAssignPlugin
  | ClearTmpData 'a 's AddonModAssignPlugin any
  | CopySubmissionData 'a AddonModAssignPlugin any "number option" "string option"
  | DeleteOfflineData 'a 's AddonModAssignPlugin any "string option"
  | GetComponent 'j AddonModAssignPlugin "bool option"
  | GetPluginFiles 'a 's AddonModAssignPlugin "string option"
  | GetPluginName AddonModAssignPlugin
  | GetSizeForCopy 'a AddonModAssignPlugin
  | GetSizeForEdit 'a 's AddonModAssignPlugin any
  | HasDataChanged 'a 's AddonModAssignPlugin any
  | IsEnabled
  | IsEnabledForEdit
  | Prefetch 'a 's AddonModAssignPlugin "string option"
  | PrepareSubmissionData 'a 's AddonModAssignPlugin any any "bool option" "number option"
      "string option"
  | PrepareSyncData 'a 's AddonModAssignPlugin any any "string option"

fun invoke :: "('a, 's, 'j) hook \<Rightarrow> state \<Rightarrow> any completion \<times> state" where
  "invoke (CanEditOffline a sub p) s = canEditOffline a sub p s"
| "invoke (IsEmpty a p) s = isEmpty a p s"
| "invoke (ClearTmpData a sub p inp) s = clearTmpData a sub p inp s"
| "invoke (CopySubmissionData a p pd uid sid) s = copySubmissionData a p pd uid sid s"
| "invoke (DeleteOfflineData a sub p od sid) s = deleteOfflineData a sub p od sid s"
| "invoke (GetComponent ij p e) s = getComponent ij p e s"
| "invoke (GetPluginFiles a sub p sid) s = getPluginFiles a sub p sid s"
| "invoke (GetPluginName p) s = getPluginName p s"
| "invoke (GetSizeForCopy a p) s = getSizeForCopy a p s"
| "invoke (GetSizeForEdit a sub p inp) s = getSizeForEdit a sub p inp s"
| "invoke (HasDataChanged a sub p inp) s = hasDataChanged a sub p inp s"
| "invoke IsEnabled s = isEnabled s"
| "invoke IsEnabledForEdit s = isEnabledForEdit s"
| "invoke (Prefetch a sub p sid) s = prefetch a sub p sid s"
| "invoke (PrepareSubmissionData a sub p inp pd off uid sid) s =
     prepareSubmissionData a sub p inp pd off uid sid s"
| "invoke (PrepareSyncData a sub p od pd sid) s = prepareSyncData a sub p od pd sid s"

fun run :: "('a, 's, 'j) hook list \<Rightarrow> state \<Rightarrow> state" where
  "run [] s = s"
| "run (c # cs) s = run cs (snd (invoke c s))"

subsection \<open>A lookup that throws\<close>

text \<open>
  \<open>instant\<close> is a method of another object, and a JavaScript call either returns or
  throws. \<open>getPluginName\<close> calls it outside any \<open>try\<close> block, so what the lookup throws is
  what the method throws. Here the lookup \<open>this.translate.instant\<close> is a parameter that
  yields a completion; the body is that of \<open>getPluginName\<close> otherwise, and the call is
  logged whether it returns or throws.
\<close>

type_synonym raising_lookup = "string \<Rightarrow> string completion"

definition getPluginName_with ::
  "raising_lookup \<Rightarrow> AddonModAssignPlugin \<Rightarrow> state \<Rightarrow> any completion \<times> state" where
  "getPluginName_with lookup plugin s =
     (let translationId = ''addon.mod_assign_submission_'' @ plugin_type plugin @ ''.pluginname'';
          s' = s\<lparr>calls := calls s @ [TranslateInstant translationId]\<rparr>
      in case lookup translationId of
           Throw e \<Rightarrow> (Throw e, s')
         | Normal translation \<Rightarrow>
             if translationId \<noteq> translation then (Normal (String translation), s')
             else if truthy (plugin_name plugin)
               then (Normal (case plugin_name plugin of None \<Rightarrow> Undefined | Some n \<Rightarrow> String n),
                     s')
             else (Normal Undefined, s'))"

text \<open>
  The method call with such a lookup: \<open>getPluginName\<close> is the only method that calls the
  translation service.
\<close>

definition invoke_with ::
  "raising_lookup \<Rightarrow> ('a, 's, 'j) hook \<Rightarrow> state \<Rightarrow> any completion \<times> state" where
  "invoke_with lookup c s =
     (case c of GetPluginName p \<Rightarrow> getPluginName_with lookup p s | _ \<Rightarrow> invoke c s)"

text \<open>A translation service that keeps its contract, as a lookup that always returns.\<close>

definition returning :: "TranslateService \<Rightarrow> raising_lookup" where
  "returning tr key = Normal (instant tr key)"

subsection \<open>An example state\<close>

text \<open>
  A translation service that knows the name of the file plugin only and echoes every other
  key, and a state whose handler was constructed with it. The heap holds one plugin-data
  accumulator and the storage one offline record.
\<close>

definition file_translations :: TranslateService where
  "file_translations =
     \<lparr>instant = (\<lambda>key. if key = ''addon.mod_assign_submission_file.pluginname''
                        then ''File submissions'' else key)\<rparr>"

definition example_state :: state where
  "example_state =
     \<lparr>this = constructor file_translations,
      heap = [0 \<mapsto> [(''files_filemanager'', Number 7)]],
      storage = [''assign_submission_1'' \<mapsto> Object 0],
      calls = []\<rparr>"


section \<open>Properties\<close>

subsection \<open>Shared lemmas\<close>

lemmas hook_defs =
  canEditOffline_def isEmpty_def clearTmpData_def copySubmissionData_def
  deleteOfflineData_def getComponent_def getPluginFiles_def getPluginName_def
  getSizeForCopy_def getSizeForEdit_def hasDataChanged_def isEnabled_def
  isEnabledForEdit_def prefetch_def prepareSubmissionData_def prepareSyncData_def
  translate_instant_def Let_def

lemma invoke_this: "this (snd (invoke c s)) = this s"
  by (cases c) (simp_all add: hook_defs)

lemma run_this: "this (run cs s) = this s"
  by (induction cs arbitrary: s) (simp_all add: invoke_this)

lemma invoke_result:
  "translate (this s1) = translate (this s2) \<Longrightarrow> fst (invoke c s1) = fst (invoke c s2)"
  by (cases c) (simp_all add: hook_defs)

text \<open>
  With a lookup that always returns, the two forms of \<open>getPluginName\<close> and of the method
  call agree; a lookup that throws at the key makes \<open>getPluginName\<close> throw the same value.
\<close>

lemma getPluginName_with_returning:
  "getPluginName_with (returning (translate (this s))) plugin s = getPluginName plugin s"
  by (simp add: getPluginName_with_def getPluginName_def translate_instant_def returning_def
      Let_def)

lemma invoke_with_returning: "invoke_with (returning (translate (this s))) c s = invoke c s"
  by (cases c) (simp_all add: invoke_with_def getPluginName_with_returning)

lemma getPluginName_with_propagates:
  "lookup (''addon.mod_assign_submission_'' @ plugin_type plugin @ ''.pluginname'') = Throw e
   \<Longrightarrow> fst (getPluginName_with lookup plugin s) = Throw e"
  by (simp add: getPluginName_with_def Let_def)


subsection \<open>The plugin name\<close>

text \<open>
  C1, as amended. With \<open>key = "addon.mod_assign_submission_" + plugin.type + ".pluginname"\<close>
  and \<open>translation\<close> the translation service's answer for \<open>key\<close>: \<open>getPluginName\<close> returns
  the translation when it differs from the key; when the lookup echoes the key, it returns
  the descriptor's name if the name is present and not the empty string; and it returns
  \<open>undefined\<close> when the lookup echoes the key and the name is missing or empty.
\<close>

theorem getPluginName_result:
  assumes "key = ''addon.mod_assign_submission_'' @ plugin_type plugin @ ''.pluginname''"
    and "translation = instant (translate (this s)) key"
  shows "(translation \<noteq> key \<longrightarrow> fst (getPluginName plugin s) = Normal (String translation))
    \<and> (translation = key \<longrightarrow> plugin_name plugin = Some n \<longrightarrow> n \<noteq> []
          \<longrightarrow> fst (getPluginName plugin s) = Normal (String n))
    \<and> (translation = key \<longrightarrow> plugin_name plugin = None \<or> plugin_name plugin = Some []
          \<longrightarrow> fst (getPluginName plugin s) = Normal Undefined)"
  using assms
  by (auto simp add: getPluginName_def translate_instant_def truthy_def Let_def)

text \<open>
  The three cases at concrete descriptors: a registered translation for the type \<open>file\<close>,
  the type \<open>custom\<close> with the name \<open>Custom Plugin\<close>, and the type \<open>custom\<close> with no name.
\<close>

theorem getPluginName_result_witness:
  "instant (translate (this example_state)) ''addon.mod_assign_submission_file.pluginname''
     \<noteq> ''addon.mod_assign_submission_file.pluginname''
   \<and> fst (getPluginName \<lparr>plugin_type = ''file'', plugin_name = Some ''Files''\<rparr> example_state)
       = Normal (String ''File submissions'')
   \<and> instant (translate (this example_state)) ''addon.mod_assign_submission_custom.pluginname''
       = ''addon.mod_assign_submission_custom.pluginname''
   \<and> fst (getPluginName \<lparr>plugin_type = ''custom'', plugin_name = Some ''Custom Plugin''\<rparr>
         example_state) = Normal (String ''Custom Plugin'')
   \<and> fst (getPluginName \<lparr>plugin_type = ''custom'', plugin_name = None\<rparr> example_state)
       = Normal Undefined"
  using
    getPluginName_result [of "''addon.mod_assign_submission_file.pluginname''"
      "\<lparr>plugin_type = ''file'', plugin_name = Some ''Files''\<rparr>" "''File submissions''"
      example_state]
    getPluginName_result [of "''addon.mod_assign_submission_custom.pluginname''"
      "\<lparr>plugin_type = ''custom'', plugin_name = Some ''Custom Plugin''\<rparr>"
      "''addon.mod_assign_submission_custom.pluginname''" example_state "''Custom Plugin''"]
    getPluginName_result [of "''addon.mod_assign_submission_custom.pluginname''"
      "\<lparr>plugin_type = ''custom'', plugin_name = None\<rparr>"
      "''addon.mod_assign_submission_custom.pluginname''" example_state]
  by (simp add: example_state_def file_translations_def constructor_def)

text \<open>
  C1 as first stated says that the descriptor's name field is returned whenever the lookup
  echoes the key. For a descriptor whose name is the empty string the test
  \<open>if (plugin.name)\<close> fails, and the result is \<open>undefined\<close>, not the name field.
\<close>

theorem getPluginName_name_field_counterexample:
  "instant (translate (this example_state)) ''addon.mod_assign_submission_custom.pluginname''
     = ''addon.mod_assign_submission_custom.pluginname''
   \<and> plugin_name \<lparr>plugin_type = ''custom'', plugin_name = Some ''''\<rparr> = Some ''''
   \<and> fst (getPluginName \<lparr>plugin_type = ''custom'', plugin_name = Some ''''\<rparr> example_state)
       \<noteq> Normal (String '''')
   \<and> fst (getPluginName \<lparr>plugin_type = ''custom'', plugin_name = Some ''''\<rparr> example_state)
       = Normal Undefined"
  by (simp add: getPluginName_def translate_instant_def truthy_def example_state_def
      file_translations_def constructor_def Let_def)

text \<open>
  C9. When the lookup echoes the key and the name field is present but is the empty string,
  \<open>getPluginName\<close> returns \<open>undefined\<close> and not the empty string: the call is the same as for
  a descriptor with no name at all.
\<close>

theorem getPluginName_empty_name:
  assumes "instant (translate (this s))
             (''addon.mod_assign_submission_'' @ plugin_type plugin @ ''.pluginname'')
           = ''addon.mod_assign_submission_'' @ plugin_type plugin @ ''.pluginname''"
    and "plugin_name plugin = Some []"
  shows "fst (getPluginName plugin s) = Normal Undefined
    \<and> fst (getPluginName plugin s) \<noteq> Normal (String [])
    \<and> getPluginName plugin s = getPluginName (plugin\<lparr>plugin_name := None\<rparr>) s"
  using assms
  by (simp add: getPluginName_def translate_instant_def truthy_def)

theorem getPluginName_empty_name_witness:
  "instant (translate (this example_state))
     (''addon.mod_assign_submission_''
        @ plugin_type \<lparr>plugin_type = ''onlinetext'', plugin_name = Some []\<rparr> @ ''.pluginname'')
     = ''addon.mod_assign_submission_''
        @ plugin_type \<lparr>plugin_type = ''onlinetext'', plugin_name = Some []\<rparr> @ ''.pluginname''
   \<and> plugin_name \<lparr>plugin_type = ''onlinetext'', plugin_name = Some []\<rparr> = Some []
   \<and> fst (getPluginName \<lparr>plugin_type = ''onlinetext'', plugin_name = Some []\<rparr> example_state)
       = Normal Undefined"
proof -
  let ?p = "\<lparr>plugin_type = ''onlinetext'', plugin_name = Some []\<rparr>"
  have echo: "instant (translate (this example_state))
      (''addon.mod_assign_submission_'' @ plugin_type ?p @ ''.pluginname'')
    = ''addon.mod_assign_submission_'' @ plugin_type ?p @ ''.pluginname''"
    by (simp add: example_state_def file_translations_def constructor_def)
  have empty: "plugin_name ?p = Some []"
    by simp
  from getPluginName_empty_name [OF echo empty]
  have "fst (getPluginName ?p example_state) = Normal Undefined"
    by (rule conjunct1)
  with echo empty show ?thesis
    by (intro conjI)
qed

subsection \<open>Constant results\<close>

text \<open>
  C2. Each default hook with a boolean result returns its constant as a normal completion,
  whatever its arguments and the state: \<open>canEditOffline\<close> false, \<open>isEmpty\<close> true,
  \<open>hasDataChanged\<close> false, \<open>isEnabled\<close> true and \<open>isEnabledForEdit\<close> false.
\<close>

theorem boolean_hooks:
  "fst (canEditOffline assign submission plugin s) = Normal (Boolean False)
   \<and> fst (isEmpty assign plugin s) = Normal (Boolean True)
   \<and> fst (hasDataChanged assign submission plugin inputData s) = Normal (Boolean False)
   \<and> fst (isEnabled s) = Normal (Boolean True)
   \<and> fst (isEnabledForEdit s) = Normal (Boolean False)"
  by (simp add: canEditOffline_def isEmpty_def hasDataChanged_def isEnabled_def
      isEnabledForEdit_def)

text \<open>
  C5. The default \<open>getSizeForCopy\<close> and \<open>getSizeForEdit\<close> each return exactly the number
  \<open>0\<close>.
\<close>

theorem size_hooks_zero:
  "fst (getSizeForCopy assign plugin s) = Normal (Number 0)
   \<and> fst (getSizeForEdit assign submission plugin inputData s) = Normal (Number 0)"
  by (simp add: getSizeForCopy_def getSizeForEdit_def)

text \<open>C6. The default \<open>getPluginFiles\<close> returns the empty array.\<close>

theorem getPluginFiles_empty:
  "fst (getPluginFiles assign submission plugin siteId s) = Normal (Array [])"
  by (simp add: getPluginFiles_def)

text \<open>
  C7. The default \<open>prefetch\<close> returns a promise that is already fulfilled with
  \<open>undefined\<close>, hence not a pending one, and it calls no collaborator: the log of
  collaborator calls, like the rest of the state, is the one before the call.
\<close>

theorem prefetch_resolved:
  "fst (prefetch assign submission plugin siteId s) = Normal (Promise (Fulfilled Undefined))
   \<and> fst (prefetch assign submission plugin siteId s) \<noteq> Normal (Promise Pending)
   \<and> calls (snd (prefetch assign submission plugin siteId s)) = calls s
   \<and> snd (prefetch assign submission plugin siteId s) = s"
  by (simp add: prefetch_def)

subsection \<open>Frame, totality, statelessness\<close>

text \<open>
  C3. The default \<open>clearTmpData\<close>, \<open>copySubmissionData\<close>, \<open>deleteOfflineData\<close>,
  \<open>prepareSubmissionData\<close> and \<open>prepareSyncData\<close> leave the heap, and with it the
  plugin-data accumulator whatever object \<open>pluginData\<close> refers to, and the storage as they
  were: the state after the call is the state before it.
\<close>

theorem side_effect_hooks_frame:
  "snd (clearTmpData assign submission plugin inputData s) = s
   \<and> snd (copySubmissionData assign plugin pluginData userId siteId s) = s
   \<and> snd (deleteOfflineData assign submission plugin offlineData siteId s) = s
   \<and> snd (prepareSubmissionData assign submission plugin inputData pluginData offline userId
          siteId s) = s
   \<and> snd (prepareSyncData assign submission plugin offlineData pluginData siteId s) = s
   \<and> heap (snd (copySubmissionData assign plugin pluginData userId siteId s)) = heap s
   \<and> heap (snd (prepareSubmissionData assign submission plugin inputData pluginData offline
          userId siteId s)) = heap s
   \<and> heap (snd (prepareSyncData assign submission plugin offlineData pluginData siteId s))
       = heap s
   \<and> storage (snd (clearTmpData assign submission plugin inputData s)) = storage s
   \<and> storage (snd (deleteOfflineData assign submission plugin offlineData siteId s))
       = storage s"
  by (simp add: clearTmpData_def copySubmissionData_def deleteOfflineData_def
      prepareSubmissionData_def prepareSyncData_def)




text \<open>
  C8. Every default hook is deterministic and stateless. The result of a call depends on
  the hook, its arguments and the translation function only: in two states whose handlers
  hold the same translation service the same call returns the same result. A call leaves
  the handler object as it was, and after any sequence of calls of hooks the same call
  still returns what it returned before them.
\<close>

theorem hooks_deterministic_stateless:
  assumes "translate (this s1) = translate (this s2)"
  shows "fst (invoke c s1) = fst (invoke c s2)
    \<and> this (snd (invoke c s1)) = this s1
    \<and> fst (invoke c (run cs s1)) = fst (invoke c s1)"
proof -
  have "fst (invoke c s1) = fst (invoke c s2)"
    using assms by (rule invoke_result)
  moreover have "this (snd (invoke c s1)) = this s1"
    by (rule invoke_this)
  moreover have "fst (invoke c (run cs s1)) = fst (invoke c s1)"
    by (rule invoke_result) (simp add: run_this)
  ultimately show ?thesis by simp
qed

theorem hooks_deterministic_stateless_witness:
  "translate (this example_state)
     = translate (this (example_state\<lparr>heap := Map.empty, calls := [TranslateInstant ''k'']\<rparr>))
   \<and> fst (invoke (GetPluginName \<lparr>plugin_type = ''file'', plugin_name = None\<rparr>
              :: (unit, unit, unit) hook) example_state)
     = fst (invoke (GetPluginName \<lparr>plugin_type = ''file'', plugin_name = None\<rparr>
              :: (unit, unit, unit) hook)
         (example_state\<lparr>heap := Map.empty, calls := [TranslateInstant ''k'']\<rparr>))
   \<and> fst (invoke (GetPluginName \<lparr>plugin_type = ''file'', plugin_name = None\<rparr>
              :: (unit, unit, unit) hook)
         (run [Prefetch () () \<lparr>plugin_type = ''file'', plugin_name = None\<rparr> None,
               GetPluginName \<lparr>plugin_type = ''file'', plugin_name = None\<rparr>
                 :: (unit, unit, unit) hook]
            example_state))
     = Normal (String ''File submissions'')"
proof -
  let ?s2 = "example_state\<lparr>heap := Map.empty, calls := [TranslateInstant ''k'']\<rparr>"
  let ?c = "GetPluginName \<lparr>plugin_type = ''file'', plugin_name = None\<rparr> :: (unit, unit, unit) hook"
  let ?cs = "[Prefetch () () \<lparr>plugin_type = ''file'', plugin_name = None\<rparr> None, ?c]"
  have same: "translate (this example_state) = translate (this ?s2)"
    by simp
  note twice = hooks_deterministic_stateless [OF same, of ?c ?cs]
  have first: "fst (invoke ?c example_state) = Normal (String ''File submissions'')"
    by (simp add: getPluginName_def translate_instant_def example_state_def
        file_translations_def constructor_def Let_def)
  have other: "fst (invoke ?c example_state) = fst (invoke ?c ?s2)"
    using twice by (rule conjunct1)
  have "fst (invoke ?c (run ?cs example_state)) = fst (invoke ?c example_state)"
    using twice by (rule conjunct2 [THEN conjunct2])
  then have later: "fst (invoke ?c (run ?cs example_state)) = Normal (String ''File submissions'')"
    using first by (rule trans)
  from same other later show ?thesis
    by (intro conjI)
qed

text \<open>
  C10. The constructor sets the field \<open>name\<close> to \<open>AddonModAssignBaseSubmissionHandler\<close> and
  the field \<open>type\<close> to \<open>base\<close>, and no sequence of calls of hooks changes either field of
  the handler.
\<close>

theorem identity_fields_constant:
  "name (constructor tr) = ''AddonModAssignBaseSubmissionHandler''
   \<and> type (constructor tr) = ''base''
   \<and> name (this (run cs s)) = name (this s)
   \<and> type (this (run cs s)) = type (this s)"
  by (simp add: constructor_def run_this)

end
